theory Spec2Isabelle
  imports Complex_Main
begin

section \<open>Strings as the program uses them\<close>

text \<open>
  The server is a TypeScript program; its strings are modelled as \<open>string\<close>, one
  \<open>char\<close> per code unit, which covers every text whose code units are below 256.
  The functions of this section are the JavaScript string operations that
  \<^verbatim>\<open>src/index.ts\<close> calls, with the behaviour the language defines for them.
\<close>

text \<open>\<^verbatim>\<open>s.startsWith(p)\<close>: a raw comparison of code units.\<close>

definition startsWith :: "string \<Rightarrow> string \<Rightarrow> bool" where
  "startsWith s p = (take (length p) s = p)"

text \<open>
  \<^verbatim>\<open>s.replace(pat, rep)\<close> with a string pattern: only the first occurrence of
  \<open>pat\<close>, wherever it stands in \<open>s\<close>, is replaced.
\<close>

fun replace_first :: "string \<Rightarrow> string \<Rightarrow> string \<Rightarrow> string" where
  "replace_first pat rep [] = (if pat = [] then rep else [])"
| "replace_first pat rep (c # cs) =
     (if startsWith (c # cs) pat then rep @ drop (length pat) (c # cs)
      else c # replace_first pat rep cs)"

text \<open>
  \<^verbatim>\<open>s.split(sep)\<close> for a one-character separator: the pieces between the
  separators, empty pieces included; the empty text gives one empty piece.
\<close>

fun split_on :: "char \<Rightarrow> string \<Rightarrow> string list" where
  "split_on sep [] = [[]]"
| "split_on sep (c # cs) =
     (case split_on sep cs of
        [] \<Rightarrow> (if c = sep then [[], []] else [[c]])
      | piece # pieces \<Rightarrow> (if c = sep then [] # piece # pieces else (c # piece) # pieces))"

text \<open>\<^verbatim>\<open>xs.join(sep)\<close>.\<close>

fun join :: "string \<Rightarrow> string list \<Rightarrow> string" where
  "join sep [] = []"
| "join sep [x] = x"
| "join sep (x # y # ys) = x @ sep @ join sep (y # ys)"

text \<open>
  White space and line terminators as \<^verbatim>\<open>String.prototype.trim\<close> knows them, in
  the range of code units modelled: TAB, LF, VT, FF, CR, SP and NBSP.
\<close>

definition is_space :: "char \<Rightarrow> bool" where
  "is_space c = (of_char c \<in> {9, 10, 11, 12, 13, 32, 160 :: nat})"

definition trim :: "string \<Rightarrow> string" where
  "trim s = rev (dropWhile is_space (rev (dropWhile is_space s)))"

text \<open>
  The decimal digits of an integer, with a minus sign in front of a negative one. This
  is the text JavaScript prints for a number whose value is an integer of magnitude
  below \<open>2^53\<close>, such as the exit code of a process; it is not the text of a number
  in general, which the model leaves to the world (see \<open>number_toString\<close> below).
\<close>

definition digit_char :: "nat \<Rightarrow> char" where
  "digit_char d = char_of (48 + d)"

function digits_of :: "nat \<Rightarrow> string" where
  "digits_of n = (if n < 10 then [digit_char n] else digits_of (n div 10) @ [digit_char (n mod 10)])"
  by pat_completeness auto
termination
  by (relation "measure (\<lambda>n. n)") auto

definition int_toString :: "int \<Rightarrow> string" where
  "int_toString i = (if i < 0 then CHR ''-'' # digits_of (nat (- i)) else digits_of (nat i))"

text \<open>JavaScript truthiness of an optional string: \<^verbatim>\<open>undefined\<close> and \<^verbatim>\<open>""\<close> are falsy.\<close>

fun truthy_string :: "string option \<Rightarrow> string option" where
  "truthy_string None = None"
| "truthy_string (Some s) = (if s = [] then None else Some s)"

section \<open>Path resolution\<close>

text \<open>
  \<^verbatim>\<open>path.resolve(p)\<close> of the Node.js standard library, on POSIX, with one
  argument: a relative \<open>p\<close> is placed under the working directory, the text is cut
  at \<^verbatim>\<open>/\<close>, empty and \<^verbatim>\<open>.\<close> segments disappear, \<^verbatim>\<open>..\<close> removes the segment
  before it (and is dropped at the top of an absolute path), and the rest is joined
  again without a trailing separator.
\<close>

fun normalizeSegments :: "bool \<Rightarrow> string list \<Rightarrow> string list \<Rightarrow> string list" where
  "normalizeSegments allowAboveRoot res [] = rev res"
| "normalizeSegments allowAboveRoot res (seg # segs) =
     (if seg = [] \<or> seg = ''.'' then normalizeSegments allowAboveRoot res segs
      else if seg = ''..'' then
        (case res of
           [] \<Rightarrow> normalizeSegments allowAboveRoot (if allowAboveRoot then [''..''] else []) segs
         | r # rs \<Rightarrow>
             (if r = ''..'' then
                normalizeSegments allowAboveRoot (if allowAboveRoot then ''..'' # r # rs else r # rs) segs
              else normalizeSegments allowAboveRoot rs segs))
      else normalizeSegments allowAboveRoot (seg # res) segs)"

definition normalizeString :: "string \<Rightarrow> bool \<Rightarrow> string" where
  "normalizeString p allowAboveRoot =
     join ''/'' (normalizeSegments allowAboveRoot [] (split_on CHR ''/'' p))"

definition path_resolve :: "string \<Rightarrow> string \<Rightarrow> string" where
  "path_resolve workdir p =
     (let resolvedPath0 = (if p = [] then [] else p @ ''/'');
          resolvedAbsolute0 = (p \<noteq> [] \<and> hd p = CHR ''/'');
          resolvedPath = (if resolvedAbsolute0 \<or> workdir = [] then resolvedPath0
                          else workdir @ ''/'' @ resolvedPath0);
          resolvedAbsolute = (if resolvedAbsolute0 \<or> workdir = [] then resolvedAbsolute0
                              else hd workdir = CHR ''/'');
          normalized = normalizeString resolvedPath (\<not> resolvedAbsolute)
      in if resolvedAbsolute then ''/'' @ normalized
         else if normalized \<noteq> [] then normalized else ''.'')"

section \<open>Root registry\<close>

text \<open>\<^verbatim>\<open>interface Root { uri: string; name?: string }\<close>\<close>

record root =
  uri :: string
  name :: "string option"

text \<open>\<^verbatim>\<open>root.uri.replace("file://", "")\<close>\<close>

definition rootPath :: "root \<Rightarrow> string" where
  "rootPath r = replace_first ''file://'' [] (uri r)"

text \<open>
  The boundary check of \<^verbatim>\<open>handleRipgrepSearch\<close>:
  \<^verbatim>\<open>availableRoots.some(root => path.resolve(searchPath).startsWith(path.resolve(rootPath)))\<close>
\<close>

definition isWithinRoots :: "string \<Rightarrow> root list \<Rightarrow> string \<Rightarrow> bool" where
  "isWithinRoots workdir availableRoots searchPath =
     list_ex (\<lambda>r. startsWith (path_resolve workdir searchPath) (path_resolve workdir (rootPath r)))
       availableRoots"

text \<open>
  The answer of the client to a \<^verbatim>\<open>roots/list\<close> request: the request is rejected
  (with a message), or a response arrives whose \<^verbatim>\<open>roots\<close> field may be absent.
\<close>

datatype authority_reply = RequestFails string | Replies "root list option"

section \<open>Errors\<close>

text \<open>
  Every \<^verbatim>\<open>new Error(...)\<close> of the source is a constructor; \<open>message\<close> gives the
  text the source builds for it. The two causes of a failed path validation are the
  rejection of \<^verbatim>\<open>access\<close> (which brings its own message) and the boundary check.
\<close>

datatype validation_cause = AccessRejected string | NotWithinAnyRoot string

datatype error =
    PatternRequired
  | RootNotFound string "string option list"
  | NoSearchPaths
  | PathValidationFailed string validation_cause
  | EngineFailure "int option" string
  | EngineLaunchFailure string

definition quoted :: "string \<Rightarrow> string" where
  "quoted s = CHR 0x27 # s @ [CHR 0x27]"

fun cause_message :: "validation_cause \<Rightarrow> string" where
  "cause_message (AccessRejected msg) = msg"
| "cause_message (NotWithinAnyRoot searchPath) =
     ''Search path '' @ quoted searchPath @ '' is not within any allowed root''"

fun message :: "error \<Rightarrow> string" where
  "message PatternRequired = ''Pattern is required''"
| "message (RootNotFound root_name names) =
     ''Root '' @ quoted root_name @ '' not found. Available roots: ''
       @ join '', '' (map (\<lambda>n. case n of None \<Rightarrow> [] | Some s \<Rightarrow> s) names)"
| "message NoSearchPaths =
     ''No search paths available. The client has not provided any roots. Use refresh_roots tool or provide a specific path.''"
| "message (PathValidationFailed searchPath cause) =
     ''Search path validation failed for '' @ quoted searchPath @ '': '' @ cause_message cause"
| "message (EngineFailure code stderr) =
     ''Ripgrep failed with code ''
       @ (case code of None \<Rightarrow> ''null'' | Some c \<Rightarrow> int_toString c) @ '': '' @ stderr"
| "message (EngineLaunchFailure msg) = ''Failed to execute ripgrep: '' @ msg"

section \<open>Engine output\<close>

text \<open>
  A number that arrives in JSON is a double: a finite one, given by its value, or an
  infinite one (\<^verbatim>\<open>1e999\<close> parses to \<^verbatim>\<open>Infinity\<close>); it is never \<^verbatim>\<open>NaN\<close>. The
  numeric options of a request (schema type \<^verbatim>\<open>number\<close>) and the numbers in the
  output of the engine are of this kind.
\<close>

datatype js_number = Finite rat | PlusInfinity | MinusInfinity

text \<open>\<^verbatim>\<open>n > 0\<close>\<close>

fun greater_than_zero :: "js_number \<Rightarrow> bool" where
  "greater_than_zero (Finite q) = (0 < q)"
| "greater_than_zero PlusInfinity = True"
| "greater_than_zero MinusInfinity = False"

text \<open>
  The values \<^verbatim>\<open>JSON.parse\<close> can return. Of a number only whether it is zero is ever
  observed in the output of the engine. An object is the list of its own properties.
\<close>

datatype json =
    JNull
  | JBool bool
  | JNumber js_number
  | JString string
  | JArray "json list"
  | JObject "(string \<times> json) list"

text \<open>\<^verbatim>\<open>Boolean(v)\<close>\<close>

fun truthy :: "json \<Rightarrow> bool" where
  "truthy JNull = False"
| "truthy (JBool b) = b"
| "truthy (JNumber n) = (n \<noteq> Finite 0)"
| "truthy (JString s) = (s \<noteq> [])"
| "truthy (JArray vs) = True"
| "truthy (JObject props) = True"

text \<open>
  \<^verbatim>\<open>v.type\<close> for a value that is neither \<^verbatim>\<open>null\<close> nor \<^verbatim>\<open>undefined\<close>: the
  property of an object, \<^verbatim>\<open>undefined\<close> (here \<open>None\<close>) for everything else.
\<close>

fun type_of :: "json \<Rightarrow> json option" where
  "type_of (JObject props) = map_of props ''type''"
| "type_of v = None"

text \<open>
  What the engine process did: it could not be started, or it closed with an exit code
  (\<^verbatim>\<open>null\<close> when a signal ended it) after writing to its two streams.
\<close>

datatype engine_outcome = SpawnError string | Closed "int option" string string

section \<open>The world around the server\<close>

text \<open>
  The collaborators of the server: the client that answers \<^verbatim>\<open>roots/list\<close>, the file
  system behind \<^verbatim>\<open>access\<close> (\<open>Some msg\<close> is a rejection with that message), the
  working directory of the process, the \<^verbatim>\<open>rg\<close> executable, and \<^verbatim>\<open>JSON.parse\<close>
  (\<open>None\<close> where it throws). The last field is the language's conversion of a number
  to text, which a template literal applies to a number placed in it: the shortest
  digits that read back as the same double, exponent notation from \<open>10^21\<close> on. The
  model does not compute it; what is proved holds for every such conversion.
\<close>

record world =
  authority :: authority_reply
  access :: "string \<Rightarrow> string option"
  cwd :: string
  rg :: "string list \<Rightarrow> engine_outcome"
  json_parse :: "string \<Rightarrow> json option"
  number_toString :: "js_number \<Rightarrow> string"

section \<open>Refreshing the roots\<close>

text \<open>
  \<^verbatim>\<open>requestRootsFromClient\<close>. The first component is \<^verbatim>\<open>this.availableRoots\<close>
  afterwards, the second is how the promise settles: \<open>Inr\<close> with the value returned,
  \<open>Inl\<close> with an error thrown.
\<close>

definition requestRootsFromClient :: "world \<Rightarrow> root list \<Rightarrow> root list \<times> (error + root list)" where
  "requestRootsFromClient w availableRoots =
     (case authority w of
        Replies response_roots \<Rightarrow>
          (let availableRoots' = (case response_roots of None \<Rightarrow> [] | Some rs \<Rightarrow> rs)
           in (availableRoots', Inr availableRoots'))
      | RequestFails err \<Rightarrow> (availableRoots, Inr []))"

text \<open>
  \<^verbatim>\<open>handleRefreshRoots\<close>: the registry afterwards, and the object the reply
  serialises, built from the value \<^verbatim>\<open>requestRootsFromClient\<close> returned.
\<close>

record refresh_report =
  report_message :: string
  report_availableRoots :: "(string \<times> string option \<times> string) list"
  totalRoots :: nat

definition handleRefreshRoots :: "world \<Rightarrow> root list \<Rightarrow> root list \<times> (error + refresh_report)" where
  "handleRefreshRoots w availableRoots =
     (let refreshed = requestRootsFromClient w availableRoots
      in case snd refreshed of
           Inl e \<Rightarrow> (fst refreshed, Inl e)
         | Inr roots \<Rightarrow>
             (fst refreshed,
              Inr \<lparr>report_message = ''Roots refreshed successfully'',
                   report_availableRoots = map (\<lambda>r. (uri r, name r, rootPath r)) roots,
                   totalRoots = length roots\<rparr>))"

section \<open>The search handler\<close>

text \<open>
  The arguments of a \<^verbatim>\<open>ripgrep_search\<close> call, before the defaults of the
  destructuring in \<^verbatim>\<open>handleRipgrepSearch\<close> are applied: \<open>None\<close> is a field left out.
\<close>

record search_args =
  pattern :: "string option"
  path :: "string option"
  root_name :: "string option"
  case_sensitive :: "bool option"
  context_lines :: "js_number option"
  max_results :: "js_number option"
  max_matched_files :: "js_number option"

definition or_default :: "'a \<Rightarrow> 'a option \<Rightarrow> 'a" where
  "or_default d v = (case v of None \<Rightarrow> d | Some x \<Rightarrow> x)"

text \<open>Lines 170 to 192: the search paths of a request.\<close>

definition resolveSearchPaths :: "root list \<Rightarrow> search_args \<Rightarrow> error + string list" where
  "resolveSearchPaths availableRoots a =
     (case truthy_string (path a) of
        Some specifiedPath \<Rightarrow> Inr [specifiedPath]
      | None \<Rightarrow>
          (case truthy_string (root_name a) of
             Some rn \<Rightarrow>
               (case find (\<lambda>r. name r = Some rn) availableRoots of
                  None \<Rightarrow> Inl (RootNotFound rn (map name availableRoots))
                | Some targetRoot \<Rightarrow> Inr [rootPath targetRoot])
           | None \<Rightarrow>
               (if length availableRoots > 0 then Inr (map rootPath availableRoots)
                else Inl NoSearchPaths)))"

text \<open>
  Lines 194 to 215: the body of the validation loop for one path, and the loop. What
  the \<^verbatim>\<open>try\<close> block throws is caught and thrown again with the path in front.
\<close>

definition validatePath :: "world \<Rightarrow> root list \<Rightarrow> string \<Rightarrow> validation_cause + unit" where
  "validatePath w availableRoots searchPath =
     (case access w searchPath of
        Some msg \<Rightarrow> Inl (AccessRejected msg)
      | None \<Rightarrow>
          (if length availableRoots > 0 then
             (if \<not> isWithinRoots (cwd w) availableRoots searchPath
              then Inl (NotWithinAnyRoot searchPath) else Inr ())
           else Inr ()))"

fun validatePaths :: "world \<Rightarrow> root list \<Rightarrow> string list \<Rightarrow> error + unit" where
  "validatePaths w availableRoots [] = Inr ()"
| "validatePaths w availableRoots (searchPath # rest) =
     (case validatePath w availableRoots searchPath of
        Inl cause \<Rightarrow> Inl (PathValidationFailed searchPath cause)
      | Inr u \<Rightarrow> validatePaths w availableRoots rest)"

text \<open>Lines 217 to 237: the argument vector, one \<^verbatim>\<open>push\<close> after the other.\<close>

definition defaultRipgrepArgs :: "string list" where
  "defaultRipgrepArgs = [''--json'', ''--no-heading'']"

definition push :: "string list \<Rightarrow> string list \<Rightarrow> string list" where
  "push arr items = arr @ items"

definition buildRipgrepArgs :: "world \<Rightarrow> search_args \<Rightarrow> string \<Rightarrow> string list \<Rightarrow> string list" where
  "buildRipgrepArgs w a pat searchPaths =
     (let context_lines = or_default (Finite 0) (context_lines a);
          max_results = or_default (Finite 1000) (max_results a);
          max_matched_files = or_default (Finite 100) (max_matched_files a);
          ripgrepArgs = defaultRipgrepArgs;
          ripgrepArgs = (if \<not> or_default False (case_sensitive a)
                         then push ripgrepArgs [''--ignore-case''] else ripgrepArgs);
          ripgrepArgs = (if greater_than_zero context_lines
                         then push ripgrepArgs [''--context='' @ number_toString w context_lines]
                         else ripgrepArgs);
          ripgrepArgs = (if greater_than_zero max_results
                         then push ripgrepArgs [''--max-results='' @ number_toString w max_results]
                         else ripgrepArgs);
          ripgrepArgs = (if greater_than_zero max_matched_files
                         then push ripgrepArgs
                                [''--max-matched-files='' @ number_toString w max_matched_files]
                         else ripgrepArgs);
          ripgrepArgs = push ripgrepArgs [pat]
      in push ripgrepArgs searchPaths)"

text \<open>
  Lines 296 to 307: the standard output of the engine, turned into results. A line
  that \<^verbatim>\<open>JSON.parse\<close> rejects becomes \<^verbatim>\<open>null\<close>, and \<^verbatim>\<open>filter(Boolean)\<close> removes
  every falsy value.
\<close>

definition parseLine :: "(string \<Rightarrow> json option) \<Rightarrow> string \<Rightarrow> json" where
  "parseLine parse line = (case parse line of None \<Rightarrow> JNull | Some v \<Rightarrow> v)"

definition parseOutput :: "(string \<Rightarrow> json option) \<Rightarrow> string \<Rightarrow> json list" where
  "parseOutput parse stdout =
     filter (\<lambda>result. type_of result = Some (JString ''match''))
       (filter truthy
         (map (parseLine parse)
           (filter (\<lambda>line. trim line \<noteq> []) (split_on (CHR 0x0A) stdout))))"

text \<open>
  \<^verbatim>\<open>executeRipgrep\<close>: how the promise settles, given what the process did with the
  arguments.
\<close>

definition executeRipgrep :: "world \<Rightarrow> string list \<Rightarrow> error + json list" where
  "executeRipgrep w args =
     (case rg w args of
        Closed code stdout stderr \<Rightarrow>
          (if code = Some 0 \<or> code = Some 1 then Inr (parseOutput (json_parse w) stdout)
           else Inl (EngineFailure code stderr))
      | SpawnError msg \<Rightarrow> Inl (EngineLaunchFailure msg))"

text \<open>
  The object that a successful search serialises into its reply, and the two replies
  the handler can return: the serialised result, or a text with \<^verbatim>\<open>isError: true\<close>.
\<close>

record search_result =
  res_pattern :: string
  res_searchPaths :: "(string \<times> string option) list"
  results :: "json list"
  totalMatches :: nat
  res_availableRoots :: nat

datatype payload = SearchOk search_result | SearchFailed string

definition rootNameOf :: "root list \<Rightarrow> string \<Rightarrow> string option" where
  "rootNameOf availableRoots sp =
     (case find (\<lambda>r. startsWith sp (rootPath r)) availableRoots of
        None \<Rightarrow> None
      | Some r \<Rightarrow> name r)"

text \<open>
  One run of \<^verbatim>\<open>handleRipgrepSearch\<close>: the registry it leaves behind, the number of
  \<^verbatim>\<open>roots/list\<close> requests it sent, the arguments it gave to \<^verbatim>\<open>spawn("rg", ...)\<close> if
  it got that far, and its outcome: \<open>Inl\<close> is an error thrown out of the handler,
  \<open>Inr\<close> a reply returned by it.
\<close>

record run =
  registry :: "root list"
  roots_requests :: nat
  spawned :: "string list option"
  outcome :: "error + payload"

definition handleRipgrepSearch :: "world \<Rightarrow> root list \<Rightarrow> search_args \<Rightarrow> run" where
  "handleRipgrepSearch w availableRoots a =
     (case truthy_string (pattern a) of
        None \<Rightarrow>
          \<lparr>registry = availableRoots, roots_requests = 0, spawned = None,
           outcome = Inl PatternRequired\<rparr>
      | Some pat \<Rightarrow>
          (let refreshed = (if length availableRoots = 0
                            then requestRootsFromClient w availableRoots
                            else (availableRoots, Inr availableRoots));
               sent = (if length availableRoots = 0 then 1 else 0);
               roots = fst refreshed
           in case snd refreshed of
                Inl e \<Rightarrow> \<lparr>registry = roots, roots_requests = sent, spawned = None, outcome = Inl e\<rparr>
              | Inr _ \<Rightarrow>
                  (case resolveSearchPaths roots a of
                     Inl e \<Rightarrow>
                       \<lparr>registry = roots, roots_requests = sent, spawned = None, outcome = Inl e\<rparr>
                   | Inr searchPaths \<Rightarrow>
                       (case validatePaths w roots searchPaths of
                          Inl e \<Rightarrow>
                            \<lparr>registry = roots, roots_requests = sent, spawned = None,
                             outcome = Inl e\<rparr>
                        | Inr _ \<Rightarrow>
                            (let ripgrepArgs = buildRipgrepArgs w a pat searchPaths
                             in \<lparr>registry = roots, roots_requests = sent,
                                 spawned = Some ripgrepArgs,
                                 outcome =
                                   (case executeRipgrep w ripgrepArgs of
                                      Inr rs \<Rightarrow>
                                        Inr (SearchOk
                                          \<lparr>res_pattern = pat,
                                           res_searchPaths =
                                             map (\<lambda>sp. (sp, rootNameOf roots sp)) searchPaths,
                                           results = rs,
                                           totalMatches = length rs,
                                           res_availableRoots = length roots\<rparr>)
                                    | Inl e \<Rightarrow>
                                        Inr (SearchFailed (''Search failed: '' @ message e)))\<rparr>)))))"

section \<open>The specification's wording\<close>

text \<open>
  The boundary check as the specification words it: the canonical form of the
  candidate starts with the canonical form of some root, compared component by
  component.
\<close>

definition pathComponents :: "string \<Rightarrow> string list" where
  "pathComponents p = filter (\<lambda>seg. seg \<noteq> []) (split_on CHR ''/'' p)"

definition spec_isWithinAnyRoot :: "string \<Rightarrow> root list \<Rightarrow> string \<Rightarrow> bool" where
  "spec_isWithinAnyRoot workdir availableRoots candidatePath =
     list_ex (\<lambda>r. let rootComponents = pathComponents (path_resolve workdir (rootPath r))
                  in take (length rootComponents) (pathComponents (path_resolve workdir candidatePath))
                       = rootComponents)
       availableRoots"

text \<open>
  The output adaptation as the specification words it: cut at newlines, skip the blank
  lines, drop the lines that do not parse, keep the records whose \<^verbatim>\<open>type\<close> is
  \<^verbatim>\<open>"match"\<close>.
\<close>

definition is_blank :: "string \<Rightarrow> bool" where
  "is_blank line = list_all is_space line"

fun is_match_record :: "json \<Rightarrow> bool" where
  "is_match_record (JObject props) = (map_of props ''type'' = Some (JString ''match''))"
| "is_match_record v = False"

definition spec_adaptOutput :: "(string \<Rightarrow> json option) \<Rightarrow> string \<Rightarrow> json list" where
  "spec_adaptOutput parse stdout =
     filter is_match_record
       (List.map_filter parse
         (filter (\<lambda>line. \<not> is_blank line) (split_on (CHR 0x0A) stdout)))"

section \<open>A sample world\<close>

text \<open>
  Concrete collaborators on which the theorems below are instantiated: four paths
  exist on disk, the engine answers according to the last argument it is given, and
  the parse function knows the lines of \<open>sample_stdout\<close> (the fourth of which is a
  broken fragment). The conversion of numbers prints an integer of magnitude below
  \<open>2^53\<close> in decimal digits and the two infinities by their names, as JavaScript
  does; for any other number it only has a placeholder, and no example asks it for one.
\<close>

definition sample_access :: "string \<Rightarrow> string option" where
  "sample_access p =
     (if p \<in> set [''/root'', ''/root-2'', ''/root/src'', ''/srv/data''] then None
      else Some (''ENOENT: no such file or directory, access '' @ quoted p))"

definition sample_stdout :: string where
  \<open>sample_stdout =
     ''{"type":"begin"}'' @ [CHR 0x0A] @
     ''{"type":"match","line":3}'' @ [CHR 0x0A] @
     ''  '' @ [CHR 0x0A] @
     ''{"type":"mat'' @ [CHR 0x0A] @
     ''{"type":"match","line":7}'' @ [CHR 0x0A] @
     ''{"type":"end"}'' @ [CHR 0x0A]\<close>

definition sample_parse :: "string \<Rightarrow> json option" where
  \<open>sample_parse line =
     (if line = ''{"type":"begin"}'' then Some (JObject [(''type'', JString ''begin'')])
      else if line = ''{"type":"match","line":3}''
        then Some (JObject [(''type'', JString ''match''), (''line'', JNumber (Finite 3))])
      else if line = ''{"type":"match","line":7}''
        then Some (JObject [(''type'', JString ''match''), (''line'', JNumber (Finite 7))])
      else if line = ''{"type":"end"}'' then Some (JObject [(''type'', JString ''end'')])
      else if line = ''null'' then Some JNull
      else None)\<close>

definition sample_rg :: "string list \<Rightarrow> engine_outcome" where
  "sample_rg args =
     (if last args = ''/root/src'' then Closed (Some 0) sample_stdout []
      else if last args = ''/root'' then Closed (Some 1) [] []
      else if last args = ''/root-2'' then Closed (Some 2) [] ''rg: regex parse error''
      else SpawnError ''spawn rg ENOENT'')"

definition sample_number_toString :: "js_number \<Rightarrow> string" where
  "sample_number_toString n =
     (case n of
        Finite q \<Rightarrow>
          (if q = of_int \<lfloor>q\<rfloor> \<and> \<bar>q\<bar> < 2 ^ 53 then int_toString \<lfloor>q\<rfloor> else ''?'')
      | PlusInfinity \<Rightarrow> ''Infinity''
      | MinusInfinity \<Rightarrow> ''-Infinity'')"

definition sample_world :: "authority_reply \<Rightarrow> world" where
  "sample_world reply =
     \<lparr>authority = reply, access = sample_access, cwd = ''/home/user'',
      rg = sample_rg, json_parse = sample_parse,
      number_toString = sample_number_toString\<rparr>"

definition main_root :: root where
  "main_root = \<lparr>uri = ''file:///root'', name = Some ''main''\<rparr>"

definition request :: "string \<Rightarrow> string option \<Rightarrow> string option \<Rightarrow> search_args" where
  "request pat p rn =
     \<lparr>pattern = Some pat, path = p, root_name = rn, case_sensitive = None,
      context_lines = None, max_results = None, max_matched_files = None\<rparr>"

text \<open>A request that sets every option and names a root.\<close>

definition tuned_request :: search_args where
  "tuned_request =
     \<lparr>pattern = Some ''fo+[.](bar|baz)$'', path = None, root_name = Some ''main'',
      case_sensitive = Some True, context_lines = Some (Finite 2),
      max_results = Some (Finite 50), max_matched_files = Some (Finite 0)\<rparr>"

section \<open>How a run of the handler unfolds\<close>

lemma requestRoots_settles:
  "snd (requestRootsFromClient w R) =
     Inr (case authority w of Replies rr \<Rightarrow> or_default [] rr | RequestFails e \<Rightarrow> [])"
  by (simp add: requestRootsFromClient_def or_default_def Let_def
      split: authority_reply.splits option.splits)

lemma handle_unfold:
  assumes "truthy_string (pattern a) = Some pat"
  shows "handleRipgrepSearch w R a =
     (let roots = (if R = [] then fst (requestRootsFromClient w R) else R);
          sent = (if R = [] then 1 else 0)
      in case resolveSearchPaths roots a of
        Inl e \<Rightarrow> \<lparr>registry = roots, roots_requests = sent, spawned = None, outcome = Inl e\<rparr>
      | Inr paths \<Rightarrow>
         (case validatePaths w roots paths of
            Inl e \<Rightarrow> \<lparr>registry = roots, roots_requests = sent, spawned = None, outcome = Inl e\<rparr>
          | Inr u \<Rightarrow>
              \<lparr>registry = roots, roots_requests = sent,
               spawned = Some (buildRipgrepArgs w a pat paths),
               outcome =
             (case executeRipgrep w (buildRipgrepArgs w a pat paths) of
                Inr rs \<Rightarrow> Inr (SearchOk \<lparr>res_pattern = pat,
                     res_searchPaths = map (\<lambda>sp. (sp, rootNameOf roots sp)) paths,
                     results = rs, totalMatches = length rs, res_availableRoots = length roots\<rparr>)
              | Inl e \<Rightarrow> Inr (SearchFailed (''Search failed: '' @ message e)))\<rparr>))"
proof (cases "R = []")
  case True
  then show ?thesis
    using assms by (simp add: handleRipgrepSearch_def Let_def requestRoots_settles split: sum.split)
next
  case False
  then show ?thesis
    using assms by (simp add: handleRipgrepSearch_def Let_def split: sum.split)
qed

lemma handle_no_pattern:
  "truthy_string (pattern a) = None \<Longrightarrow>
   handleRipgrepSearch w R a =
     \<lparr>registry = R, roots_requests = 0, spawned = None, outcome = Inl PatternRequired\<rparr>"
  by (simp add: handleRipgrepSearch_def)

lemma handle_registry:
  "truthy_string (pattern a) = Some pat \<Longrightarrow>
   registry (handleRipgrepSearch w R a) = (if R = [] then fst (requestRootsFromClient w R) else R)"
  by (simp add: handle_unfold Let_def split: sum.split)

lemma handle_requests:
  "truthy_string (pattern a) = Some pat \<Longrightarrow>
   roots_requests (handleRipgrepSearch w R a) = (if R = [] then 1 else 0)"
  by (simp add: handle_unfold Let_def split: sum.split)

text \<open>The run in terms of its own registry.\<close>

lemma handle_run:
  assumes "truthy_string (pattern a) = Some pat"
  shows "spawned (handleRipgrepSearch w R a) =
     (case resolveSearchPaths (registry (handleRipgrepSearch w R a)) a of
        Inl e \<Rightarrow> None
      | Inr paths \<Rightarrow>
         (case validatePaths w (registry (handleRipgrepSearch w R a)) paths of
            Inl e \<Rightarrow> None
          | Inr u \<Rightarrow> Some (buildRipgrepArgs w a pat paths)))"
    and "outcome (handleRipgrepSearch w R a) =
     (case resolveSearchPaths (registry (handleRipgrepSearch w R a)) a of
        Inl e \<Rightarrow> Inl e
      | Inr paths \<Rightarrow>
         (case validatePaths w (registry (handleRipgrepSearch w R a)) paths of
            Inl e \<Rightarrow> Inl e
          | Inr u \<Rightarrow>
             (case executeRipgrep w (buildRipgrepArgs w a pat paths) of
                Inr rs \<Rightarrow> Inr (SearchOk \<lparr>res_pattern = pat,
                     res_searchPaths =
                       map (\<lambda>sp. (sp, rootNameOf (registry (handleRipgrepSearch w R a)) sp)) paths,
                     results = rs, totalMatches = length rs,
                     res_availableRoots = length (registry (handleRipgrepSearch w R a))\<rparr>)
              | Inl e \<Rightarrow> Inr (SearchFailed (''Search failed: '' @ message e)))))"
  unfolding handle_registry [OF assms]
  by (simp_all add: handle_unfold [OF assms] Let_def split: sum.split)

section \<open>Resolution, validation and argument construction\<close>

lemma validatePath_Inr_iff:
  "validatePath w R p = Inr u \<longleftrightarrow>
     access w p = None \<and> (R \<noteq> [] \<longrightarrow> isWithinRoots (cwd w) R p)"
  by (auto simp: validatePath_def split: option.splits)

lemma validatePaths_Inr:
  "validatePaths w R ps = Inr u \<Longrightarrow> p \<in> set ps \<Longrightarrow> validatePath w R p = Inr ()"
  by (induction ps) (auto split: sum.splits)

lemma validatePaths_Inl:
  "validatePaths w R ps = Inl e \<Longrightarrow>
   \<exists>p c. p \<in> set ps \<and> validatePath w R p = Inl c \<and> e = PathValidationFailed p c"
  by (induction ps) (auto split: sum.splits)

lemma resolve_explicit:
  "truthy_string (path a) = Some p \<Longrightarrow> resolveSearchPaths R a = Inr [p]"
  by (simp add: resolveSearchPaths_def)

lemma resolve_Inl:
  "resolveSearchPaths R a = Inl e \<Longrightarrow>
   e = NoSearchPaths \<or> (\<exists>rn. e = RootNotFound rn (map name R))"
  by (auto simp: resolveSearchPaths_def split: option.splits if_splits)

lemma buildRipgrepArgs_eq:
  "buildRipgrepArgs w a pat paths =
     [''--json'', ''--no-heading'']
     @ (if or_default False (case_sensitive a) then [] else [''--ignore-case''])
     @ (if greater_than_zero (or_default (Finite 0) (context_lines a))
        then [''--context='' @ number_toString w (or_default (Finite 0) (context_lines a))]
        else [])
     @ (if greater_than_zero (or_default (Finite 1000) (max_results a))
        then [''--max-results='' @ number_toString w (or_default (Finite 1000) (max_results a))]
        else [])
     @ (if greater_than_zero (or_default (Finite 100) (max_matched_files a))
        then [''--max-matched-files=''
                @ number_toString w (or_default (Finite 100) (max_matched_files a))]
        else [])
     @ [pat] @ paths"
  by (simp add: buildRipgrepArgs_def defaultRipgrepArgs_def push_def Let_def)

lemma handle_spawned:
  assumes "spawned (handleRipgrepSearch w R a) = Some args"
  shows "\<exists>pat paths. pattern a = Some pat \<and> truthy_string (pattern a) = Some pat
           \<and> resolveSearchPaths (registry (handleRipgrepSearch w R a)) a = Inr paths
           \<and> validatePaths w (registry (handleRipgrepSearch w R a)) paths = Inr ()
           \<and> args = buildRipgrepArgs w a pat paths"
proof (cases "truthy_string (pattern a)")
  case None
  then show ?thesis using assms by (simp add: handle_no_pattern)
next
  case (Some pat)
  then have pa: "pattern a = Some pat"
    by (cases "pattern a") (auto split: if_splits)
  show ?thesis
    using assms handle_run(1) [OF Some, of w R] Some pa
    by (auto split: sum.splits)
qed

section \<open>Blank lines and match records\<close>

lemma trim_Nil_iff: "trim s = [] \<longleftrightarrow> is_blank s"
proof
  assume "trim s = []"
  then have all: "\<forall>c \<in> set (dropWhile is_space s). is_space c"
    by (simp add: trim_def)
  have "dropWhile is_space s = []"
  proof (rule ccontr)
    assume ne: "dropWhile is_space s \<noteq> []"
    then have "\<not> is_space (hd (dropWhile is_space s))" by (rule hd_dropWhile)
    moreover from ne have "hd (dropWhile is_space s) \<in> set (dropWhile is_space s)" by simp
    ultimately show False using all by blast
  qed
  then show "is_blank s"
    by (simp add: is_blank_def list_all_iff)
next
  assume "is_blank s"
  then have blank: "dropWhile is_space s = []"
    by (simp add: is_blank_def list_all_iff)
  show "trim s = []"
    unfolding trim_def blank by simp
qed

lemma match_record_iff:
  "truthy v \<and> type_of v = Some (JString ''match'') \<longleftrightarrow> is_match_record v"
  by (cases v) auto

lemma keep_matches:
  "filter (\<lambda>result. type_of result = Some (JString ''match''))
     (filter truthy (map (parseLine parse) ls)) =
   filter is_match_record (List.map_filter parse ls)"
proof (induction ls)
  case Nil
  show ?case by simp
next
  case (Cons l ls)
  show ?case
  proof (cases "parse l")
    case None
    with Cons show ?thesis by (simp add: parseLine_def)
  next
    case (Some v)
    with Cons match_record_iff [of v] show ?thesis
      by (auto simp: parseLine_def)
  qed
qed

section \<open>The sample world at work\<close>

lemma sample_run_src:
  "spawned (handleRipgrepSearch (sample_world (RequestFails ''offline'')) [main_root]
      (request ''foo'' (Some ''/root/src'') (Some ''main''))) =
   Some [''--json'', ''--no-heading'', ''--ignore-case'', ''--max-results=1000'',
         ''--max-matched-files=100'', ''foo'', ''/root/src'']"
  by code_simp

section \<open>The claims\<close>

text \<open>
  Claim C1. The boundary check is meant to accept a path exactly when its canonical
  form has the canonical form of some root as a prefix of path components, so that
  \<^verbatim>\<open>/root-2\<close> is rejected when the only root is \<^verbatim>\<open>/root\<close>. The check in the
  source compares the two resolved texts with \<^verbatim>\<open>startsWith\<close>: with the single root
  \<^verbatim>\<open>file:///root\<close> it accepts \<^verbatim>\<open>/root-2\<close>, which the component-wise check
  rejects, and the handler starts the engine on that path.
\<close>

theorem C1_sibling_directory_accepted:
  "isWithinRoots ''/home/user'' [\<lparr>uri = ''file:///root'', name = None\<rparr>] ''/root-2''
   \<and> \<not> spec_isWithinAnyRoot ''/home/user'' [\<lparr>uri = ''file:///root'', name = None\<rparr>] ''/root-2''
   \<and> spawned (handleRipgrepSearch (sample_world (RequestFails ''offline''))
         [\<lparr>uri = ''file:///root'', name = None\<rparr>] (request ''foo'' (Some ''/root-2'') None)) =
       Some [''--json'', ''--no-heading'', ''--ignore-case'', ''--max-results=1000'',
             ''--max-matched-files=100'', ''foo'', ''/root-2'']"
  by code_simp

text \<open>
  Claim C2. A refresh replaces the whole registry by the answer of the client, and by
  the empty list when the request fails, and no failure reaches the caller. The code
  misses the second part: the \<^verbatim>\<open>catch\<close> block of \<^verbatim>\<open>requestRootsFromClient\<close> returns
  the empty list without assigning it to the registry. With the root \<^verbatim>\<open>/root\<close>
  registered and a request that fails, the registry still holds that root, while the
  caller gets the empty list, \<^verbatim>\<open>handleRefreshRoots\<close> reports a successful refresh
  with no roots, and the next search without a path runs the engine on \<^verbatim>\<open>/root\<close>.
\<close>

theorem C2_failed_refresh_keeps_roots:
  "requestRootsFromClient (sample_world (RequestFails ''timeout'')) [main_root] =
     ([main_root], Inr [])
   \<and> handleRefreshRoots (sample_world (RequestFails ''timeout'')) [main_root] =
     ([main_root],
      Inr \<lparr>report_message = ''Roots refreshed successfully'', report_availableRoots = [],
           totalRoots = 0\<rparr>)
   \<and> spawned (handleRipgrepSearch (sample_world (RequestFails ''timeout'')) [main_root]
         (request ''foo'' None None)) =
       Some [''--json'', ''--no-heading'', ''--ignore-case'', ''--max-results=1000'',
             ''--max-matched-files=100'', ''foo'', ''/root'']"
  by code_simp

text \<open>
  Claim C3. Whenever the handler starts the engine, the paths at the end of the
  argument vector are the resolved search paths, each of them was accepted by
  \<^verbatim>\<open>access\<close>, and, if the registry was not empty when they were validated, each of
  them passed the boundary check against it; so an explicit path that the boundary
  check does not accept reaches the engine only when the registry is empty.
\<close>

theorem C3_engine_paths_validated:
  assumes "spawned (handleRipgrepSearch w R a) = Some args"
  shows "\<exists>pat paths.
           resolveSearchPaths (registry (handleRipgrepSearch w R a)) a = Inr paths
         \<and> args = buildRipgrepArgs w a pat paths
         \<and> (\<exists>flags. args = flags @ pat # paths)
         \<and> (\<forall>p \<in> set paths.
               access w p = None
             \<and> (registry (handleRipgrepSearch w R a) \<noteq> [] \<longrightarrow>
                  isWithinRoots (cwd w) (registry (handleRipgrepSearch w R a)) p))
         \<and> (\<forall>p. truthy_string (path a) = Some p
                 \<and> \<not> isWithinRoots (cwd w) (registry (handleRipgrepSearch w R a)) p
               \<longrightarrow> registry (handleRipgrepSearch w R a) = [])"
proof -
  let ?roots = "registry (handleRipgrepSearch w R a)"
  from handle_spawned [OF assms] obtain pat paths where
    res: "resolveSearchPaths ?roots a = Inr paths" and
    val: "validatePaths w ?roots paths = Inr ()" and
    args: "args = buildRipgrepArgs w a pat paths"
    by blast
  have checked: "access w p = None \<and> (?roots \<noteq> [] \<longrightarrow> isWithinRoots (cwd w) ?roots p)"
    if "p \<in> set paths" for p
    using validatePaths_Inr [OF val that] by (simp add: validatePath_Inr_iff)
  have flags: "\<exists>flags. args = flags @ pat # paths"
    unfolding args buildRipgrepArgs_eq by (metis append.assoc append_Cons append_Nil)
  have explicit: "?roots = []"
    if "truthy_string (path a) = Some p" "\<not> isWithinRoots (cwd w) ?roots p" for p
  proof -
    from that(1) res have "paths = [p]" by (simp add: resolve_explicit)
    with checked [of p] that(2) show ?thesis by auto
  qed
  from res args flags checked explicit show ?thesis by blast
qed

text \<open>
  A search of \<^verbatim>\<open>/root/src\<close> under the registered root \<^verbatim>\<open>/root\<close>: the engine is
  started, the path exists and lies within the root.
\<close>

theorem C3_engine_paths_validated_witness:
  "spawned (handleRipgrepSearch (sample_world (RequestFails ''offline'')) [main_root]
      (request ''foo'' (Some ''/root/src'') (Some ''main''))) =
   Some [''--json'', ''--no-heading'', ''--ignore-case'', ''--max-results=1000'',
         ''--max-matched-files=100'', ''foo'', ''/root/src'']
   \<and> access (sample_world (RequestFails ''offline'')) ''/root/src'' = None
   \<and> isWithinRoots (cwd (sample_world (RequestFails ''offline''))) [main_root] ''/root/src''"
proof -
  let ?w = "sample_world (RequestFails ''offline'')"
  let ?a = "request ''foo'' (Some ''/root/src'') (Some ''main'')"
  have reg: "registry (handleRipgrepSearch ?w [main_root] ?a) = [main_root]"
    by (simp add: handle_registry [of _ "''foo''"] request_def)
  have pth: "truthy_string (path ?a) = Some ''/root/src''"
    by (simp add: request_def)
  from C3_engine_paths_validated [OF sample_run_src] obtain paths where
    res: "resolveSearchPaths (registry (handleRipgrepSearch ?w [main_root] ?a)) ?a = Inr paths" and
    chk: "\<forall>p \<in> set paths. access ?w p = None
             \<and> (registry (handleRipgrepSearch ?w [main_root] ?a) \<noteq> [] \<longrightarrow>
                  isWithinRoots (cwd ?w) (registry (handleRipgrepSearch ?w [main_root] ?a)) p)"
    by blast
  from res pth have "paths = [''/root/src'']"
    by (simp add: resolve_explicit)
  with chk reg have "access ?w ''/root/src'' = None \<and> isWithinRoots (cwd ?w) [main_root] ''/root/src''"
    by simp
  with sample_run_src show ?thesis by blast
qed

text \<open>
  Claim C4, as the code has it. Only the \<^verbatim>\<open>try\<close> block around \<^verbatim>\<open>executeRipgrep\<close>
  turns an error into a reply: when the engine was started and failed (it could not be
  launched, or it closed with an exit code other than 0 and 1), the handler returns the
  failure payload \<^verbatim>\<open>Search failed: <message>\<close>. An error that leaves the handler as
  an exception is never an engine error and is raised before the engine is started: a
  missing pattern, an unknown root name, no search paths, or a failed path validation
  (the path does not exist, or it is outside the roots). Every error of scope
  resolution and of path validation leaves the handler that way.
\<close>

theorem C4_engine_errors_returned:
  "(\<forall>args e. spawned (handleRipgrepSearch w R a) = Some args \<and> executeRipgrep w args = Inl e \<longrightarrow>
       outcome (handleRipgrepSearch w R a) = Inr (SearchFailed (''Search failed: '' @ message e)))
   \<and> (\<forall>e. outcome (handleRipgrepSearch w R a) = Inl e \<longrightarrow>
         spawned (handleRipgrepSearch w R a) = None
       \<and> (e = PatternRequired \<or> e = NoSearchPaths
          \<or> (\<exists>rn. e = RootNotFound rn (map name (registry (handleRipgrepSearch w R a))))
          \<or> (\<exists>p msg. e = PathValidationFailed p (AccessRejected msg))
          \<or> (\<exists>p. e = PathValidationFailed p (NotWithinAnyRoot p))))
   \<and> (\<forall>pat e. truthy_string (pattern a) = Some pat
         \<and> resolveSearchPaths (registry (handleRipgrepSearch w R a)) a = Inl e \<longrightarrow>
         outcome (handleRipgrepSearch w R a) = Inl e)
   \<and> (\<forall>pat paths e. truthy_string (pattern a) = Some pat
         \<and> resolveSearchPaths (registry (handleRipgrepSearch w R a)) a = Inr paths
         \<and> validatePaths w (registry (handleRipgrepSearch w R a)) paths = Inl e \<longrightarrow>
         outcome (handleRipgrepSearch w R a) = Inl e)"
proof (cases "truthy_string (pattern a)")
  case None
  then show ?thesis by (simp add: handle_no_pattern)
next
  case (Some pat)
  let ?run = "handleRipgrepSearch w R a"
  note sp = handle_run(1) [OF Some, of w R] and oc = handle_run(2) [OF Some, of w R]
  have engine: "outcome ?run = Inr (SearchFailed (''Search failed: '' @ message e))"
    if "spawned ?run = Some args" "executeRipgrep w args = Inl e" for args e
    using that sp oc by (auto split: sum.splits)
  have thrown: "spawned ?run = None
       \<and> (e = PatternRequired \<or> e = NoSearchPaths
          \<or> (\<exists>rn. e = RootNotFound rn (map name (registry ?run)))
          \<or> (\<exists>p msg. e = PathValidationFailed p (AccessRejected msg))
          \<or> (\<exists>p. e = PathValidationFailed p (NotWithinAnyRoot p)))"
    if "outcome ?run = Inl e" for e
  proof (cases "resolveSearchPaths (registry ?run) a")
    case (Inl e')
    with that oc sp resolve_Inl [OF Inl] show ?thesis by auto
  next
    case (Inr paths)
    show ?thesis
    proof (cases "validatePaths w (registry ?run) paths")
      case (Inl e')
      from validatePaths_Inl [OF Inl] obtain p c where
        c: "validatePath w (registry ?run) p = Inl c" and e': "e' = PathValidationFailed p c"
        by blast
      from c have "(\<exists>msg. c = AccessRejected msg) \<or> c = NotWithinAnyRoot p"
        by (auto simp: validatePath_def split: option.splits if_splits)
      with that oc sp Inr Inl e' show ?thesis by auto
    next
      case (Inr u)
      with that oc \<open>resolveSearchPaths (registry ?run) a = Inr paths\<close> show ?thesis
        by (auto split: sum.splits)
    qed
  qed
  have resolution: "outcome ?run = Inl e" if "resolveSearchPaths (registry ?run) a = Inl e" for e
    using that oc by simp
  have validation: "outcome ?run = Inl e"
    if "resolveSearchPaths (registry ?run) a = Inr paths" "validatePaths w (registry ?run) paths = Inl e"
    for paths e
    using that oc by simp
  from engine thrown resolution validation show ?thesis by blast
qed

text \<open>
  The two engine failures on the sample world: exit code 2, and an executable that
  cannot be started. Both come back as failure payloads.
\<close>

theorem C4_engine_errors_returned_witness:
  "outcome (handleRipgrepSearch (sample_world (RequestFails ''offline'')) [main_root]
      (request ''foo'' (Some ''/root-2'') None)) =
     Inr (SearchFailed ''Search failed: Ripgrep failed with code 2: rg: regex parse error'')
   \<and> outcome (handleRipgrepSearch (sample_world (RequestFails ''offline'')) []
      (request ''foo'' (Some ''/srv/data'') None)) =
     Inr (SearchFailed ''Search failed: Failed to execute ripgrep: spawn rg ENOENT'')"
proof -
  let ?w = "sample_world (RequestFails ''offline'')"
  let ?args = "\<lambda>p. [''--json'', ''--no-heading'', ''--ignore-case'', ''--max-results=1000'',
                     ''--max-matched-files=100'', ''foo'', p]"
  have s1: "spawned (handleRipgrepSearch ?w [main_root] (request ''foo'' (Some ''/root-2'') None))
      = Some (?args ''/root-2'')"
    by code_simp
  have e1: "executeRipgrep ?w (?args ''/root-2'') = Inl (EngineFailure (Some 2) ''rg: regex parse error'')"
    by code_simp
  have m1: "message (EngineFailure (Some 2) ''rg: regex parse error'')
      = ''Ripgrep failed with code 2: rg: regex parse error''"
    by code_simp
  have s2: "spawned (handleRipgrepSearch ?w [] (request ''foo'' (Some ''/srv/data'') None))
      = Some (?args ''/srv/data'')"
    by code_simp
  have e2: "executeRipgrep ?w (?args ''/srv/data'') = Inl (EngineLaunchFailure ''spawn rg ENOENT'')"
    by code_simp
  have m2: "message (EngineLaunchFailure ''spawn rg ENOENT'')
      = ''Failed to execute ripgrep: spawn rg ENOENT''"
    by code_simp
  from C4_engine_errors_returned [of ?w "[main_root]" "request ''foo'' (Some ''/root-2'') None"] s1 e1
  have "outcome (handleRipgrepSearch ?w [main_root] (request ''foo'' (Some ''/root-2'') None)) =
     Inr (SearchFailed (''Search failed: '' @ message (EngineFailure (Some 2) ''rg: regex parse error'')))"
    by blast
  moreover
  from C4_engine_errors_returned [of ?w "[]" "request ''foo'' (Some ''/srv/data'') None"] s2 e2
  have "outcome (handleRipgrepSearch ?w [] (request ''foo'' (Some ''/srv/data'') None)) =
     Inr (SearchFailed (''Search failed: '' @ message (EngineLaunchFailure ''spawn rg ENOENT'')))"
    by blast
  ultimately show ?thesis
    unfolding m1 m2 by simp
qed

text \<open>
  Claim C4 as stated says that \<^verbatim>\<open>RootNotFound\<close> is returned as a failure payload.
  It is thrown out of the handler instead.
\<close>

theorem C4_root_not_found_thrown:
  "outcome (handleRipgrepSearch (sample_world (Replies (Some [main_root]))) []
      (request ''foo'' None (Some ''docs''))) = Inl (RootNotFound ''docs'' [Some ''main''])"
  by code_simp

text \<open>
  Claim C5. When a request carries an explicit path (a non-empty text, which is what
  \<^verbatim>\<open>if (specifiedPath)\<close> tests), the search paths are exactly that path, whatever
  the registry holds and whatever \<^verbatim>\<open>root_name\<close> says, and the handler never fails
  with \<^verbatim>\<open>RootNotFound\<close>.
\<close>

theorem C5_explicit_path_wins:
  assumes "truthy_string (path a) = Some p"
  shows "resolveSearchPaths R a = Inr [p]
       \<and> (\<forall>rn names. outcome (handleRipgrepSearch w R a) \<noteq> Inl (RootNotFound rn names))"
proof -
  have res: "resolveSearchPaths R' a = Inr [p]" for R'
    using assms by (rule resolve_explicit)
  have "outcome (handleRipgrepSearch w R a) \<noteq> Inl (RootNotFound rn names)" for rn names
  proof (cases "truthy_string (pattern a)")
    case None
    then show ?thesis by (simp add: handle_no_pattern)
  next
    case (Some pat)
    show ?thesis
    proof (cases "validatePaths w (registry (handleRipgrepSearch w R a)) [p]")
      case (Inl e)
      from validatePaths_Inl [OF Inl] have "\<exists>q c. e = PathValidationFailed q c" by blast
      with Inl show ?thesis
        unfolding handle_run(2) [OF Some] res by auto
    next
      case (Inr u)
      then show ?thesis
        unfolding handle_run(2) [OF Some] res by (simp split: sum.split)
    qed
  qed
  with res show ?thesis by blast
qed

text \<open>
  A request with the path \<^verbatim>\<open>/root/src\<close> and the unknown root name \<^verbatim>\<open>docs\<close>.
\<close>

theorem C5_explicit_path_wins_witness:
  "resolveSearchPaths [main_root] (request ''foo'' (Some ''/root/src'') (Some ''docs'')) = Inr [''/root/src'']
   \<and> outcome (handleRipgrepSearch (sample_world (RequestFails ''offline'')) [main_root]
        (request ''foo'' (Some ''/root/src'') (Some ''docs''))) \<noteq> Inl (RootNotFound ''docs'' [Some ''main''])"
proof -
  have "truthy_string (path (request ''foo'' (Some ''/root/src'') (Some ''docs''))) = Some ''/root/src''"
    by (simp add: request_def)
  from C5_explicit_path_wins [OF this] show ?thesis by blast
qed

text \<open>
  Claim C6. When a request with a pattern gives a root name and no explicit path, and
  no root of the registry (as it is after the refresh of an empty registry) has
  exactly that name, the handler fails with \<^verbatim>\<open>RootNotFound\<close>, which carries the
  requested name and the names of all roots of the registry, and the engine is not
  started.
\<close>

theorem C6_unknown_root_name:
  assumes "truthy_string (pattern a) = Some pat"
    and "truthy_string (path a) = None"
    and "truthy_string (root_name a) = Some rn"
    and "\<forall>r \<in> set (registry (handleRipgrepSearch w R a)). name r \<noteq> Some rn"
  shows "outcome (handleRipgrepSearch w R a) =
           Inl (RootNotFound rn (map name (registry (handleRipgrepSearch w R a))))
       \<and> spawned (handleRipgrepSearch w R a) = None"
proof -
  let ?roots = "registry (handleRipgrepSearch w R a)"
  from assms(4) have "find (\<lambda>r. name r = Some rn) ?roots = None"
    by (simp add: find_None_iff)
  with assms(2,3) have "resolveSearchPaths ?roots a = Inl (RootNotFound rn (map name ?roots))"
    by (simp add: resolveSearchPaths_def)
  then show ?thesis
    using handle_run [OF assms(1), of w R] by simp
qed

text \<open>
  The root name \<^verbatim>\<open>docs\<close> against a registry that holds the root \<^verbatim>\<open>main\<close>, with
  the message of the error.
\<close>

theorem C6_unknown_root_name_witness:
  "outcome (handleRipgrepSearch (sample_world (RequestFails ''offline'')) [main_root]
      (request ''foo'' None (Some ''docs''))) = Inl (RootNotFound ''docs'' [Some ''main''])
   \<and> message (RootNotFound ''docs'' [Some ''main'']) =
       ''Root '' @ [CHR 0x27] @ ''docs'' @ [CHR 0x27] @ '' not found. Available roots: main''"
proof -
  let ?w = "sample_world (RequestFails ''offline'')"
  let ?a = "request ''foo'' None (Some ''docs'')"
  have reg: "registry (handleRipgrepSearch ?w [main_root] ?a) = [main_root]"
    by (simp add: handle_registry [of _ "''foo''"] request_def)
  have "outcome (handleRipgrepSearch ?w [main_root] ?a) =
           Inl (RootNotFound ''docs'' (map name (registry (handleRipgrepSearch ?w [main_root] ?a))))
       \<and> spawned (handleRipgrepSearch ?w [main_root] ?a) = None"
    by (rule C6_unknown_root_name [where pat = "''foo''"])
       (simp_all add: reg, simp_all add: request_def main_root_def)
  moreover have "message (RootNotFound ''docs'' [Some ''main'']) =
       ''Root '' @ [CHR 0x27] @ ''docs'' @ [CHR 0x27] @ '' not found. Available roots: main''"
    by code_simp
  ultimately show ?thesis
    unfolding reg by (simp add: main_root_def)
qed

text \<open>
  Claim C7. When the engine closes with exit code 0 or 1, its standard output is
  parsed; with exit code 1 and empty output the results are empty, and a handler that
  started the engine returns a result with no results and \<^verbatim>\<open>totalMatches = 0\<close>. With
  any other exit code \<^verbatim>\<open>executeRipgrep\<close> fails with an error that carries the exit
  code and the standard-error text, and the handler reports that error.
\<close>

theorem C7_exit_codes:
  assumes "rg w args = Closed code stdout stderr"
  shows "(code = Some 0 \<or> code = Some 1 \<longrightarrow>
            executeRipgrep w args = Inr (parseOutput (json_parse w) stdout))
       \<and> (code = Some 1 \<and> stdout = [] \<longrightarrow> executeRipgrep w args = Inr [])
       \<and> (code \<noteq> Some 0 \<and> code \<noteq> Some 1 \<longrightarrow>
            executeRipgrep w args = Inl (EngineFailure code stderr))
       \<and> (spawned (handleRipgrepSearch w R a) = Some args \<longrightarrow>
            (code = Some 1 \<and> stdout = [] \<longrightarrow>
               (\<exists>r. outcome (handleRipgrepSearch w R a) = Inr (SearchOk r)
                    \<and> results r = [] \<and> totalMatches r = 0))
          \<and> (code \<noteq> Some 0 \<and> code \<noteq> Some 1 \<longrightarrow>
               outcome (handleRipgrepSearch w R a) =
                 Inr (SearchFailed (''Search failed: '' @ message (EngineFailure code stderr)))))"
proof -
  have empty: "parseOutput parse [] = []" for parse
    by (simp add: parseOutput_def trim_def)
  have exec: "executeRipgrep w args =
      (if code = Some 0 \<or> code = Some 1 then Inr (parseOutput (json_parse w) stdout)
       else Inl (EngineFailure code stderr))"
    using assms by (simp add: executeRipgrep_def)
  have run: "outcome (handleRipgrepSearch w R a) =
      (case executeRipgrep w args of
         Inr rs \<Rightarrow> Inr (SearchOk \<lparr>res_pattern = pat,
              res_searchPaths =
                map (\<lambda>sp. (sp, rootNameOf (registry (handleRipgrepSearch w R a)) sp)) paths,
              results = rs, totalMatches = length rs,
              res_availableRoots = length (registry (handleRipgrepSearch w R a))\<rparr>)
       | Inl e \<Rightarrow> Inr (SearchFailed (''Search failed: '' @ message e)))"
    if "truthy_string (pattern a) = Some pat"
      "resolveSearchPaths (registry (handleRipgrepSearch w R a)) a = Inr paths"
      "validatePaths w (registry (handleRipgrepSearch w R a)) paths = Inr ()"
      "args = buildRipgrepArgs w a pat paths" for pat paths
    using that handle_run(2) [OF that(1), of w R] by simp
  have handler: "(code = Some 1 \<and> stdout = [] \<longrightarrow>
               (\<exists>r. outcome (handleRipgrepSearch w R a) = Inr (SearchOk r)
                    \<and> results r = [] \<and> totalMatches r = 0))
          \<and> (code \<noteq> Some 0 \<and> code \<noteq> Some 1 \<longrightarrow>
               outcome (handleRipgrepSearch w R a) =
                 Inr (SearchFailed (''Search failed: '' @ message (EngineFailure code stderr))))"
    if "spawned (handleRipgrepSearch w R a) = Some args"
  proof -
    from handle_spawned [OF that] obtain pat paths where
      "truthy_string (pattern a) = Some pat"
      "resolveSearchPaths (registry (handleRipgrepSearch w R a)) a = Inr paths"
      "validatePaths w (registry (handleRipgrepSearch w R a)) paths = Inr ()"
      "args = buildRipgrepArgs w a pat paths"
      by blast
    from run [OF this] show ?thesis
      by (simp add: exec empty)
  qed
  from exec empty handler show ?thesis by simp
qed

text \<open>
  Exit code 1 with empty output, and exit code 2, on the sample world.
\<close>

theorem C7_exit_codes_witness:
  "executeRipgrep (sample_world (RequestFails ''offline'')) [''foo'', ''/root''] = Inr []
   \<and> executeRipgrep (sample_world (RequestFails ''offline'')) [''foo'', ''/root-2''] =
       Inl (EngineFailure (Some 2) ''rg: regex parse error'')
   \<and> length (parseOutput sample_parse sample_stdout) = 2"
proof -
  let ?w = "sample_world (RequestFails ''offline'')"
  have c1: "rg ?w [''foo'', ''/root''] = Closed (Some 1) [] []"
    by (simp add: sample_world_def sample_rg_def)
  have c2: "rg ?w [''foo'', ''/root-2''] = Closed (Some 2) [] ''rg: regex parse error''"
    by (simp add: sample_world_def sample_rg_def)
  have len: "length (parseOutput sample_parse sample_stdout) = 2"
    by code_simp
  from C7_exit_codes [OF c1, of "[]" "request ''foo'' None None"]
  have "executeRipgrep ?w [''foo'', ''/root''] = Inr []"
    by blast
  moreover from C7_exit_codes [OF c2, of "[]" "request ''foo'' None None"]
  have "executeRipgrep ?w [''foo'', ''/root-2''] = Inl (EngineFailure (Some 2) ''rg: regex parse error'')"
    by simp
  ultimately show ?thesis
    using len by simp
qed

text \<open>
  Claim C8. The results computed from the standard output of the engine are exactly
  those of the specification's wording: cut at newlines, blank lines skipped, lines
  that do not parse dropped, the records of type \<^verbatim>\<open>"match"\<close> kept in their order; and
  there are as many results as there are such records.
\<close>

theorem C8_output_adaptation:
  "parseOutput parse stdout = spec_adaptOutput parse stdout
   \<and> length (parseOutput parse stdout) =
       length (filter is_match_record
         (List.map_filter parse
           (filter (\<lambda>line. \<not> is_blank line) (split_on (CHR 0x0A) stdout))))"
  unfolding parseOutput_def spec_adaptOutput_def keep_matches trim_Nil_iff
  by simp

text \<open>
  The sample output (begin, match, a blank line, a broken fragment, match, end) gives
  the two match records, in that order.
\<close>

theorem C8_output_adaptation_witness:
  "parseOutput sample_parse sample_stdout =
     [JObject [(''type'', JString ''match''), (''line'', JNumber (Finite 3))],
      JObject [(''type'', JString ''match''), (''line'', JNumber (Finite 7))]]
   \<and> length (spec_adaptOutput sample_parse sample_stdout) = 2"
proof -
  have val: "parseOutput sample_parse sample_stdout =
     [JObject [(''type'', JString ''match''), (''line'', JNumber (Finite 3))],
      JObject [(''type'', JString ''match''), (''line'', JNumber (Finite 7))]]"
    by code_simp
  from C8_output_adaptation [of sample_parse sample_stdout]
  have eq: "spec_adaptOutput sample_parse sample_stdout = parseOutput sample_parse sample_stdout"
    by simp
  show ?thesis
    unfolding eq val by simp
qed

text \<open>
  Claim C9. The argument vector given to the engine is: \<^verbatim>\<open>--json\<close>,
  \<^verbatim>\<open>--no-heading\<close>; \<^verbatim>\<open>--ignore-case\<close> unless the request is case sensitive;
  \<^verbatim>\<open>--context=\<close>, \<^verbatim>\<open>--max-results=\<close> and \<^verbatim>\<open>--max-matched-files=\<close>, each followed
  by the text of its number (the default where the request gives none) and each only
  when that number is greater than zero; the pattern of the request, unchanged; the
  resolved search paths, in their order. This holds for every number a request can
  carry and for every conversion of numbers to text.
\<close>

theorem C9_argument_order:
  assumes "spawned (handleRipgrepSearch w R a) = Some args"
  shows "\<exists>pat paths.
           pattern a = Some pat
         \<and> resolveSearchPaths (registry (handleRipgrepSearch w R a)) a = Inr paths
         \<and> args =
             [''--json'', ''--no-heading'']
             @ (if or_default False (case_sensitive a) then [] else [''--ignore-case''])
             @ (if greater_than_zero (or_default (Finite 0) (context_lines a))
                then [''--context=''
                        @ number_toString w (or_default (Finite 0) (context_lines a))]
                else [])
             @ (if greater_than_zero (or_default (Finite 1000) (max_results a))
                then [''--max-results=''
                        @ number_toString w (or_default (Finite 1000) (max_results a))]
                else [])
             @ (if greater_than_zero (or_default (Finite 100) (max_matched_files a))
                then [''--max-matched-files=''
                        @ number_toString w (or_default (Finite 100) (max_matched_files a))]
                else [])
             @ [pat] @ paths"
proof -
  from handle_spawned [OF assms] obtain pat paths where
    "pattern a = Some pat"
    "resolveSearchPaths (registry (handleRipgrepSearch w R a)) a = Inr paths"
    "args = buildRipgrepArgs w a pat paths"
    by blast
  then show ?thesis
    unfolding buildRipgrepArgs_eq by blast
qed

text \<open>
  A case-sensitive request with two context lines, fifty results, no limit on matched
  files and a pattern full of regex metacharacters.
\<close>

theorem C9_argument_order_witness:
  "spawned (handleRipgrepSearch (sample_world (RequestFails ''offline'')) [main_root] tuned_request) =
     Some [''--json'', ''--no-heading'', ''--context=2'', ''--max-results=50'',
           ''fo+[.](bar|baz)$'', ''/root'']"
proof -
  let ?w = "sample_world (RequestFails ''offline'')"
  let ?run = "handleRipgrepSearch ?w [main_root] tuned_request"
  have sp: "spawned ?run = Some (the (spawned ?run))"
    by code_simp
  have reg: "registry ?run = [main_root]"
    by (simp add: handle_registry [of _ "''fo+[.](bar|baz)$''"] tuned_request_def)
  have res: "resolveSearchPaths [main_root] tuned_request = Inr [''/root'']"
    by code_simp
  from C9_argument_order [OF sp] obtain pat paths where
    p: "pattern tuned_request = Some pat" and
    r: "resolveSearchPaths (registry ?run) tuned_request = Inr paths" and
    a: "the (spawned ?run) =
             [''--json'', ''--no-heading'']
             @ (if or_default False (case_sensitive tuned_request) then [] else [''--ignore-case''])
             @ (if greater_than_zero (or_default (Finite 0) (context_lines tuned_request))
                then [''--context=''
                        @ number_toString ?w (or_default (Finite 0) (context_lines tuned_request))]
                else [])
             @ (if greater_than_zero (or_default (Finite 1000) (max_results tuned_request))
                then [''--max-results=''
                        @ number_toString ?w (or_default (Finite 1000) (max_results tuned_request))]
                else [])
             @ (if greater_than_zero (or_default (Finite 100) (max_matched_files tuned_request))
                then [''--max-matched-files=''
                        @ number_toString ?w (or_default (Finite 100) (max_matched_files tuned_request))]
                else [])
             @ [pat] @ paths"
    by blast
  from p have pat: "pat = ''fo+[.](bar|baz)$''" by (simp add: tuned_request_def)
  from r have paths: "paths = [''/root'']" unfolding reg res by simp
  have n2: "number_toString ?w (Finite 2) = ''2''" by code_simp
  have n50: "number_toString ?w (Finite 50) = ''50''" by code_simp
  have "the (spawned ?run) =
     [''--json'', ''--no-heading'', ''--context=2'', ''--max-results=50'',
      ''fo+[.](bar|baz)$'', ''/root'']"
    unfolding a pat paths by (simp add: tuned_request_def or_default_def n2 n50)
  with sp show ?thesis by simp
qed

text \<open>
  Claim C10. A request with a pattern that arrives while the registry is empty sends
  one \<^verbatim>\<open>roots/list\<close> request before anything else, also when it carries an explicit
  path, and works with the registry that this request leaves. When the client answers
  with a non-empty list of roots, these are the registry, and the explicit path is
  checked against them: the engine is started only if the path exists and passes the
  boundary check, and a path that fails the check is refused.
\<close>

theorem C10_refresh_before_resolution:
  assumes "truthy_string (pattern a) = Some pat"
  shows "roots_requests (handleRipgrepSearch w [] a) = 1
       \<and> registry (handleRipgrepSearch w [] a) = fst (requestRootsFromClient w [])
       \<and> (\<forall>rs p. authority w = Replies (Some rs) \<and> rs \<noteq> []
               \<and> truthy_string (path a) = Some p \<longrightarrow>
             registry (handleRipgrepSearch w [] a) = rs
           \<and> (spawned (handleRipgrepSearch w [] a) \<noteq> None \<longrightarrow>
                access w p = None \<and> isWithinRoots (cwd w) rs p)
           \<and> (\<not> isWithinRoots (cwd w) rs p \<longrightarrow>
                spawned (handleRipgrepSearch w [] a) = None
              \<and> (\<exists>c. outcome (handleRipgrepSearch w [] a) = Inl (PathValidationFailed p c)))
           \<and> (access w p = None \<and> \<not> isWithinRoots (cwd w) rs p \<longrightarrow>
                outcome (handleRipgrepSearch w [] a) =
                  Inl (PathValidationFailed p (NotWithinAnyRoot p))))"
proof -
  let ?run = "handleRipgrepSearch w [] a"
  have req: "roots_requests ?run = 1"
    by (simp add: handle_requests [OF assms])
  have reg: "registry ?run = fst (requestRootsFromClient w [])"
    by (simp add: handle_registry [OF assms])
  have fresh: "registry ?run = rs
           \<and> (spawned ?run \<noteq> None \<longrightarrow> access w p = None \<and> isWithinRoots (cwd w) rs p)
           \<and> (\<not> isWithinRoots (cwd w) rs p \<longrightarrow>
                spawned ?run = None \<and> (\<exists>c. outcome ?run = Inl (PathValidationFailed p c)))
           \<and> (access w p = None \<and> \<not> isWithinRoots (cwd w) rs p \<longrightarrow>
                outcome ?run = Inl (PathValidationFailed p (NotWithinAnyRoot p)))"
    if auth: "authority w = Replies (Some rs)" and ne: "rs \<noteq> []"
      and pth: "truthy_string (path a) = Some p" for rs p
  proof -
    from auth have rs: "registry ?run = rs"
      by (simp add: reg requestRootsFromClient_def)
    have res: "resolveSearchPaths rs a = Inr [p]"
      using pth by (rule resolve_explicit)
    have val: "validatePaths w rs [p] =
        (case access w p of
           Some msg \<Rightarrow> Inl (PathValidationFailed p (AccessRejected msg))
         | None \<Rightarrow> if isWithinRoots (cwd w) rs p then Inr ()
                   else Inl (PathValidationFailed p (NotWithinAnyRoot p)))"
      using ne by (simp add: validatePath_def split: option.split)
    show ?thesis
      using handle_run [OF assms, of w "[]"]
      unfolding rs res
      by (auto simp: val simp del: validatePaths.simps split: option.splits)
  qed
  from req reg fresh show ?thesis by blast
qed

text \<open>
  The path \<^verbatim>\<open>/srv/data\<close> exists; the registry is empty and the client answers with
  the root \<^verbatim>\<open>/root\<close>: the path is refused.
\<close>

theorem C10_refresh_before_resolution_witness:
  "roots_requests (handleRipgrepSearch (sample_world (Replies (Some [main_root]))) []
      (request ''foo'' (Some ''/srv/data'') None)) = 1
   \<and> registry (handleRipgrepSearch (sample_world (Replies (Some [main_root]))) []
      (request ''foo'' (Some ''/srv/data'') None)) = [main_root]
   \<and> outcome (handleRipgrepSearch (sample_world (Replies (Some [main_root]))) []
      (request ''foo'' (Some ''/srv/data'') None)) =
       Inl (PathValidationFailed ''/srv/data'' (NotWithinAnyRoot ''/srv/data''))"
proof -
  let ?w = "sample_world (Replies (Some [main_root]))"
  let ?a = "request ''foo'' (Some ''/srv/data'') None"
  have pat: "truthy_string (pattern ?a) = Some ''foo''"
    by (simp add: request_def)
  have auth: "authority ?w = Replies (Some [main_root])"
    by (simp add: sample_world_def)
  have pth: "truthy_string (path ?a) = Some ''/srv/data''"
    by (simp add: request_def)
  have acc: "access ?w ''/srv/data'' = None"
    by (simp add: sample_world_def sample_access_def)
  have out: "\<not> isWithinRoots (cwd ?w) [main_root] ''/srv/data''"
    by code_simp
  from C10_refresh_before_resolution [OF pat, of ?w] auth pth acc out
  show ?thesis
    by blast
qed

end
